theory Spec2Isabelle
  imports Main "HOL-Library.Word"
begin

section \<open>Python values shared by both modules\<close>

text \<open>
  The exceptions the two modules can raise. \<open>CallbackStop\<close> is sounddevice's
  end-of-stream signal, \<open>OSError\<close> is what a binary file object answers to a seek
  below byte 0, \<open>TypeError\<close> is Python's answer to an operator applied to operands
  that do not support it.
\<close>

datatype exc = ValueError | TypeError | OSError | CallbackStop

text \<open>
  A frame is one sample per channel; a frame array (numpy, shape (frames, channels))
  is a list of frames.
\<close>

type_synonym frame = "int list"

subsection \<open>Slicing along the first axis\<close>

text \<open>
  \<open>a[start:stop:step]\<close> with an integer \<open>start\<close>, and \<open>stop\<close> an integer or
  \<open>None\<close>. The bounds are adjusted as CPython does: a negative bound counts from the
  end, and what still falls outside is clamped to \<open>-1\<close> or \<open>0\<close> below and to
  \<open>n - 1\<close> or \<open>n\<close> above, by the sign of the step. A step of \<open>0\<close> raises ValueError.
\<close>

definition adjust_index :: "int \<Rightarrow> int \<Rightarrow> int \<Rightarrow> int" where
  "adjust_index n step i =
     (if i < 0 then (if i + n < 0 then (if step < 0 then - 1 else 0) else i + n)
      else if i \<ge> n then (if step < 0 then n - 1 else n)
      else i)"

definition slice_stop :: "int \<Rightarrow> int \<Rightarrow> int option \<Rightarrow> int" where
  "slice_stop n step stop =
     (case stop of
        None \<Rightarrow> (if step < 0 then - 1 else n)
      | Some e \<Rightarrow> adjust_index n step e)"

definition slice_count :: "int \<Rightarrow> int \<Rightarrow> int \<Rightarrow> nat" where
  "slice_count start stop step =
     (if step < 0 then (if stop < start then nat ((start - stop - 1) div (- step) + 1) else 0)
      else (if start < stop then nat ((stop - start - 1) div step + 1) else 0))"

definition py_slice :: "'a list \<Rightarrow> int \<Rightarrow> int option \<Rightarrow> int \<Rightarrow> exc + 'a list" where
  "py_slice xs start stop step =
     (if step = 0 then Inl ValueError
      else
        (let n = int (length xs);
             lo = adjust_index n step start;
             hi = slice_stop n step stop
         in Inr (map (\<lambda>i. xs ! nat (lo + int i * step)) [0..<slice_count lo hi step])))"

section \<open>The playback engine (AudioStream)\<close>

datatype mode = MODE_STOPPED | MODE_PAUSED | MODE_PLAYING

definition DEFAULT_BLOCK_SIZE :: int where
  "DEFAULT_BLOCK_SIZE = 1024"

text \<open>
  Modelled from the spec: the class AudioData that the engine plays is not among the
  sources. The engine reads three things from it: \<open>.data\<close> (the frame array),
  \<open>.framecount\<close> and \<open>len(...)\<close>; the spec calls both numbers the total frame count,
  so both are the number of frames of \<open>data\<close>.
\<close>

record audio_data =
  data :: "frame list"

definition audio_framecount :: "audio_data \<Rightarrow> int" where
  "audio_framecount a = int (length (data a))"

definition audio_len :: "audio_data \<Rightarrow> int" where
  "audio_len a = int (length (data a))"

text \<open>
  The output stream of the sounddevice library, as far as the engine looks at it:
  whether it is active (the callback is being invoked) and whether it is stopped.
\<close>

record output_stream =
  active :: bool
  stopped :: bool

record audio_stream =
  curframe :: int
  loop :: bool
  direction :: int
  mode :: mode
  stream :: output_stream
  audio :: audio_data

text \<open>
  A method returns the exception it raised, if any, with the object as the method
  left it: \<open>(None, s')\<close> is a normal return.
\<close>

definition reverse :: "audio_stream \<Rightarrow> bool" where
  "reverse s = (if direction s = - 1 then True else False)"

definition set_direction :: "audio_stream \<Rightarrow> int \<Rightarrow> exc option \<times> audio_stream" where
  "set_direction s new_val =
     (if new_val \<noteq> 1 \<and> new_val \<noteq> - 1 then (Some ValueError, s)
      else (None, s\<lparr>direction := new_val\<rparr>))"

definition set_reverse :: "audio_stream \<Rightarrow> bool \<Rightarrow> exc option \<times> audio_stream" where
  "set_reverse s new_val = set_direction s (if new_val then - 1 else 1)"

definition jump_to_frame :: "audio_stream \<Rightarrow> int \<Rightarrow> exc option \<times> audio_stream" where
  "jump_to_frame s frame =
     (if frame < 0 \<or> frame > audio_framecount (audio s) then (Some ValueError, s)
      else (None, s\<lparr>curframe := frame\<rparr>))"

definition jump_to_start :: "audio_stream \<Rightarrow> exc option \<times> audio_stream" where
  "jump_to_start s = jump_to_frame s 0"

definition jump_to_end :: "audio_stream \<Rightarrow> exc option \<times> audio_stream" where
  "jump_to_end s = jump_to_frame s (audio_len (audio s) - 1)"

definition set_default_playback_state :: "audio_stream \<Rightarrow> exc option \<times> audio_stream" where
  "set_default_playback_state s =
     (case jump_to_start s of
        (Some e, s') \<Rightarrow> (Some e, s')
      | (None, s') \<Rightarrow> (None, s'\<lparr>mode := MODE_STOPPED\<rparr>))"

definition stop_playback_callback :: "audio_stream \<Rightarrow> exc option \<times> audio_stream" where
  "stop_playback_callback s =
     (if mode s \<noteq> MODE_PAUSED then set_default_playback_state s else (None, s))"

text \<open>
  \<open>OutputStream.stop()\<close> on an active stream: the stream becomes inactive and
  stopped, and the library runs the finish hook it was given
  (\<open>finished_callback = _stop_playback_callback\<close>).
\<close>

definition stream_stop :: "audio_stream \<Rightarrow> exc option \<times> audio_stream" where
  "stream_stop s =
     stop_playback_callback (s\<lparr>stream := \<lparr>active = False, stopped = True\<rparr>\<rparr>)"

definition stop :: "audio_stream \<Rightarrow> exc option \<times> audio_stream" where
  "stop s =
     (if active (stream s) then stream_stop (s\<lparr>mode := MODE_STOPPED\<rparr>) else (None, s))"

definition pause :: "audio_stream \<Rightarrow> exc option \<times> audio_stream" where
  "pause s =
     (if active (stream s) then stream_stop (s\<lparr>mode := MODE_PAUSED\<rparr>) else (None, s))"

text \<open>
  \<open>play\<close> and \<open>jump(seconds)\<close> are left out: the first needs more of the
  library's stream than the properties below look at, the second is
  \<open>jump_to_frame\<close> behind a floating-point product.
\<close>

subsection \<open>The block-fill callback\<close>

definition get_next_block ::
  "frame list \<Rightarrow> int \<Rightarrow> int \<Rightarrow> int \<Rightarrow> exc + (frame list \<times> int)" where
  "get_next_block frame_array dir start_frame slice_size =
     (let n = int (length frame_array);
          is_within_bounds = (\<lambda>indx. if 0 \<le> indx \<and> indx < n then True else False);
          start = start_frame;
          raw_end = start + (slice_size * dir);
          end = (if is_within_bounds raw_end then Some raw_end else None);
          end_frame_idx = (if raw_end \<noteq> 0 then raw_end else if dir = 1 then n else 0)
      in case py_slice frame_array start end dir of
           Inl e \<Rightarrow> Inl e
         | Inr block \<Rightarrow> Inr (block, end_frame_idx))"

text \<open>\<open>a.fill(0)\<close> on the rows of a frame array: every sample becomes 0.\<close>

definition fill_zero :: "frame list \<Rightarrow> frame list" where
  "fill_zero rows = map (map (\<lambda>_. 0)) rows"

text \<open>
  The callback, with the block size it asks \<open>get_next_block\<close> for as a parameter.
  The source passes the class constant, so the source's callback is
  \<open>next_block_callback\<close> below, this function at \<open>DEFAULT_BLOCK_SIZE\<close>; the
  parameter is there for the properties to be stated for every block size, the
  source's among them. \<open>outdata\<close> is the scheduler's buffer, of the audio's channel
  count and sample type (the stream is opened with them); it is written in place, so
  it is returned also when the callback raises. The last two branches are numpy's
  \<open>outdata[:] = block_data\<close> when the lengths differ: a single row is broadcast
  (into the empty buffer), anything else is a shape error. The under-run diagnostic
  only prints.
\<close>

definition next_block_callback_at ::
  "int \<Rightarrow> audio_stream \<Rightarrow> frame list \<Rightarrow> exc option \<times> frame list \<times> audio_stream" where
  "next_block_callback_at block_size s outdata =
     (case get_next_block (data (audio s)) (direction s) (curframe s) block_size of
        Inl e \<Rightarrow> (Some e, outdata, s)
      | Inr (block_data, end_block_idx) \<Rightarrow>
          if length block_data < length outdata then
            (let outdata' = block_data @ fill_zero (drop (length block_data) outdata)
             in if loop s then
                  (case (if reverse s then jump_to_end s else jump_to_start s) of
                     (e, s') \<Rightarrow> (e, outdata', s'))
                else (Some CallbackStop, outdata', s))
          else if length block_data = length outdata then
            (None, block_data, s\<lparr>curframe := end_block_idx\<rparr>)
          else if length block_data = 1 then
            (None, outdata, s\<lparr>curframe := end_block_idx\<rparr>)
          else (Some ValueError, outdata, s))"

definition next_block_callback ::
  "audio_stream \<Rightarrow> frame list \<Rightarrow> exc option \<times> frame list \<times> audio_stream" where
  "next_block_callback = next_block_callback_at DEFAULT_BLOCK_SIZE"

section \<open>The frame store (BaseAudioData)\<close>

subsection \<open>The binary file object\<close>

text \<open>
  The source is a Python binary file object (\<open>BinaryIO\<close>): its bytes and its
  cursor. Where the size is 0 or more and the target of a seek is 0 or more, all file
  objects agree and the model is exact: \<open>read(sz)\<close> returns at most \<open>sz\<close> bytes
  from the cursor on and moves the cursor past them; \<open>seek(offset, whence)\<close> moves
  the cursor to an offset from the start (0) or from the cursor (1), and a target past
  the end is accepted. Elsewhere file objects differ from one another, and the model
  is one choice among them: any negative size reads all the rest (a file on disk
  raises ValueError below \<open>-1\<close>); a target below byte 0 is refused with OSError
  (\<open>io.BytesIO\<close> raises ValueError for an absolute one and moves to byte 0 for a
  relative one); \<open>whence\<close> 2 counts from the end and any other value is refused
  with ValueError (Linux has 3 and 4 as well); an offset has no upper limit (a file
  on disk has 63 bits). The store passes \<open>whence\<close> 0 or 1 only, and no property
  below rests on a negative size or target.
\<close>

type_synonym byte = "8 word"

record byte_source =
  content :: "byte list"
  cursor :: int

definition source_read :: "byte_source \<Rightarrow> int \<Rightarrow> byte list \<times> byte_source" where
  "source_read src sz =
     (let rest = drop (nat (cursor src)) (content src);
          chunk = (if sz < 0 then rest else take (nat sz) rest)
      in (chunk, src\<lparr>cursor := cursor src + int (length chunk)\<rparr>))"

definition source_seek :: "byte_source \<Rightarrow> int \<Rightarrow> int \<Rightarrow> exc option \<times> byte_source" where
  "source_seek src offset whence =
     (if whence = 0 \<or> whence = 1 \<or> whence = 2 then
        (let target = (if whence = 0 then offset
                       else if whence = 1 then cursor src + offset
                       else int (length (content src)) + offset)
         in if target < 0 then (Some OSError, src) else (None, src\<lparr>cursor := target\<rparr>))
      else (Some ValueError, src))"

subsection \<open>The store\<close>

definition FILEOBJ_SEEK_ABSOLUTE :: int where
  "FILEOBJ_SEEK_ABSOLUTE = 0"

definition FILEOBJ_SEEK_RELATIVE :: int where
  "FILEOBJ_SEEK_RELATIVE = 1"

record frame_store =
  source :: byte_source
  position :: int
  framesize :: int
  channels :: int
  samplewidth :: int
  framerate :: int
  framecount :: int

text \<open>The constructor; the keyword arguments in the order of the source.\<close>

definition BaseAudioData :: "byte_source \<Rightarrow> int \<Rightarrow> int \<Rightarrow> int \<Rightarrow> int \<Rightarrow> frame_store" where
  "BaseAudioData src chans swidth frate fcount =
     \<lparr>source = src, position = 0, framesize = swidth * chans, channels = chans,
      samplewidth = swidth, framerate = frate, framecount = fcount\<rparr>"

text \<open>
  The cursor movement. The bounds test of the source builds a ValueError and drops
  it (the statement is the bare expression \<open>ValueError(...)\<close>, with no \<open>raise\<close>):
  \<open>dropped\<close> below is that value, which nothing reads. The method then seeks the
  file object, which is the only thing that can raise here. \<open>position\<close> is not
  assigned.
\<close>

definition move_fileobj_cursor :: "frame_store \<Rightarrow> int \<Rightarrow> int \<Rightarrow> exc option \<times> frame_store" where
  "move_fileobj_cursor st frame_offset whence =
     (let new_pos = frame_offset * framesize st;
          dropped = (if new_pos < 0 \<or> new_pos \<ge> framecount st then Some ValueError else None)
      in case source_seek (source st) new_pos whence of
           (e, src') \<Rightarrow> (e, st\<lparr>source := src'\<rparr>))"

definition seek :: "frame_store \<Rightarrow> int \<Rightarrow> exc option \<times> frame_store" where
  "seek st frame_offset = move_fileobj_cursor st frame_offset FILEOBJ_SEEK_RELATIVE"

definition jump :: "frame_store \<Rightarrow> int \<Rightarrow> exc option \<times> frame_store" where
  "jump st frame_offset = move_fileobj_cursor st frame_offset FILEOBJ_SEEK_ABSOLUTE"

definition get_chunk_from_infront :: "frame_store \<Rightarrow> int \<Rightarrow> byte list \<times> frame_store" where
  "get_chunk_from_infront st chunk_size =
     (case source_read (source st) chunk_size of
        (chunk, src') \<Rightarrow> (chunk, st\<lparr>source := src'\<rparr>))"

definition get_chunk_from_behind :: "frame_store \<Rightarrow> int \<Rightarrow> (exc + byte list) \<times> frame_store" where
  "get_chunk_from_behind st chunk_size0 =
     (let starting_frame0 = position st - chunk_size0;
          chunk_size = (if starting_frame0 < 0 then chunk_size0 - starting_frame0 else chunk_size0);
          starting_frame = (if starting_frame0 < 0 then 0 else starting_frame0)
      in case move_fileobj_cursor st starting_frame FILEOBJ_SEEK_ABSOLUTE of
           (Some e, st1) \<Rightarrow> (Inl e, st1)
         | (None, st1) \<Rightarrow>
             (case source_read (source st1) chunk_size of
                (chunk, src2) \<Rightarrow>
                  (case move_fileobj_cursor (st1\<lparr>source := src2\<rparr>) (position st1)
                          FILEOBJ_SEEK_ABSOLUTE of
                     (Some e, st3) \<Rightarrow> (Inl e, st3)
                   | (None, st3) \<Rightarrow> (Inr chunk, st3))))"

text \<open>
  \<open>byte_data // self.framesize\<close>: Python's floor division applied to a bytes
  object and an int. \<open>bytes\<close> defines no such operator, so the expression raises
  TypeError whatever the operands are.
\<close>

definition bytes_floordiv :: "byte list \<Rightarrow> int \<Rightarrow> exc + byte list" where
  "bytes_floordiv byte_data k = Inl TypeError"

text \<open>
  The materialisation evaluates the shape argument first,
  \<open>len(byte_data // self.framesize)\<close>, and that raises. Were it to return, the call
  \<open>np.ndarray(..., channels = ...)\<close> passes a keyword that numpy's constructor does
  not take, which is a TypeError as well.
\<close>

definition create_frame_array :: "frame_store \<Rightarrow> byte list \<Rightarrow> exc + frame list" where
  "create_frame_array st byte_data =
     (case bytes_floordiv byte_data (framesize st) of
        Inl e \<Rightarrow> Inl e
      | Inr q \<Rightarrow> Inl TypeError)"

definition read :: "frame_store \<Rightarrow> int \<Rightarrow> (exc + frame list) \<times> frame_store" where
  "read st frames =
     (case get_chunk_from_infront st frames of
        (chunk, st') \<Rightarrow> (create_frame_array st' chunk, st'))"

definition read_left :: "frame_store \<Rightarrow> int \<Rightarrow> (exc + frame list) \<times> frame_store" where
  "read_left st frames =
     (case get_chunk_from_behind st frames of
        (Inl e, st') \<Rightarrow> (Inl e, st')
      | (Inr chunk, st') \<Rightarrow> (create_frame_array st' chunk, st'))"

section \<open>Properties of the playback engine\<close>

subsection \<open>Facts about slices\<close>

lemma length_py_slice:
  "py_slice xs a b st = Inr ys \<Longrightarrow>
   length ys =
     slice_count (adjust_index (int (length xs)) st a) (slice_stop (int (length xs)) st b) st"
  by (auto simp: py_slice_def Let_def split: if_splits)

lemma upt_3: "[0..<3] = [0, 1, 2]"
  by (simp add: upt_rec)

subsection \<open>A full block in reverse\<close>

text \<open>
  The run that \<open>get_next_block\<close> extracts in reverse when the block ends inside the
  audio: the \<open>bs\<close> frames from frame \<open>c\<close> down to frame \<open>c - bs + 1\<close>, in that
  order, and \<open>c - bs\<close> as the next position.
\<close>

lemma reverse_run:
  assumes "0 < bs" and "bs \<le> c" and "c < int (length d)"
  shows "get_next_block d (- 1) c bs =
           Inr (map (\<lambda>i. d ! nat (c - int i)) [0..<nat bs], c - bs)"
proof -
  have lo: "adjust_index (int (length d)) (- 1) c = c"
    using assms by (simp add: adjust_index_def)
  have hi: "slice_stop (int (length d)) (- 1) (Some (c - bs)) = c - bs"
    using assms by (simp add: slice_stop_def adjust_index_def)
  have cnt: "slice_count c (c - bs) (- 1) = nat bs"
    using assms(1) by (simp add: slice_count_def)
  have sl: "py_slice d c (Some (c - bs)) (- 1) = Inr (map (\<lambda>i. d ! nat (c - int i)) [0..<nat bs])"
    by (simp add: py_slice_def lo hi cnt Let_def)
  show ?thesis
    using assms by (simp add: get_next_block_def sl Let_def)
qed

text \<open>
  C1 (as the code has it): for every block size \<open>bs > 0\<close>, with direction -1, a
  buffer of \<open>bs\<close> frames and \<open>bs \<le> curframe < frame count\<close>, the callback returns
  normally, the buffer holds the source frames curframe, curframe - 1, ...,
  curframe - bs + 1 in that descending order (each is the source's frame, its samples
  untouched), and curframe becomes curframe - bs. The source's callback, whose block
  size is 1024, is the instance \<open>bs = DEFAULT_BLOCK_SIZE\<close>. At block size 3 and
  curframe 5 the frames are 5, 4, 3 and curframe becomes 2.
\<close>

theorem C1_reverse_block:
  assumes "0 < bs" and "bs \<le> curframe s" and "curframe s < int (length (data (audio s)))"
    and "direction s = - 1" and "int (length outdata) = bs"
  shows "next_block_callback_at bs s outdata =
           (None, map (\<lambda>i. data (audio s) ! nat (curframe s - int i)) [0..<nat bs],
            s\<lparr>curframe := curframe s - bs\<rparr>) \<and>
         (bs = DEFAULT_BLOCK_SIZE \<longrightarrow>
            next_block_callback s outdata =
              (None,
               map (\<lambda>i. data (audio s) ! nat (curframe s - int i)) [0..<nat DEFAULT_BLOCK_SIZE],
               s\<lparr>curframe := curframe s - DEFAULT_BLOCK_SIZE\<rparr>))"
proof -
  have blk: "get_next_block (data (audio s)) (direction s) (curframe s) bs =
      Inr (map (\<lambda>i. data (audio s) ! nat (curframe s - int i)) [0..<nat bs], curframe s - bs)"
    unfolding assms(4) by (rule reverse_run [OF assms(1-3)])
  have len: "length (map (\<lambda>i. data (audio s) ! nat (curframe s - int i)) [0..<nat bs]) =
      length outdata"
    using assms(1,5) by simp
  have gen: "next_block_callback_at bs s outdata =
      (None, map (\<lambda>i. data (audio s) ! nat (curframe s - int i)) [0..<nat bs],
       s\<lparr>curframe := curframe s - bs\<rparr>)"
    unfolding next_block_callback_at_def blk using len by simp
  show ?thesis
    using gen by (auto simp: next_block_callback_def)
qed

text \<open>
  C1, witness: the source's callback on 2048 one-channel frames whose sample is their
  index, at frame 1500 with a buffer of 1024 frames: the buffer comes out as the
  frames 1500 down to 477 and curframe is 476. And block size 3 at frame 5 of eight
  such frames: the buffer comes out as frames 5, 4, 3 and curframe is 2.
\<close>

theorem C1_reverse_block_witness:
  "next_block_callback
     \<lparr>curframe = 1500, loop = False, direction = - 1, mode = MODE_PLAYING,
      stream = \<lparr>active = True, stopped = False\<rparr>,
      audio = \<lparr>data = map (\<lambda>i. [int i]) [0..<2048]\<rparr>\<rparr>
     (replicate 1024 [0]) =
   (None, map (\<lambda>i. [1500 - int i]) [0..<1024],
    \<lparr>curframe = 476, loop = False, direction = - 1, mode = MODE_PLAYING,
      stream = \<lparr>active = True, stopped = False\<rparr>,
      audio = \<lparr>data = map (\<lambda>i. [int i]) [0..<2048]\<rparr>\<rparr>) \<and>
   next_block_callback_at 3
     \<lparr>curframe = 5, loop = False, direction = - 1, mode = MODE_PLAYING,
      stream = \<lparr>active = True, stopped = False\<rparr>,
      audio = \<lparr>data = [[0], [1], [2], [3], [4], [5], [6], [7]]\<rparr>\<rparr>
     [[9], [9], [9]] =
   (None, [[5], [4], [3]],
    \<lparr>curframe = 2, loop = False, direction = - 1, mode = MODE_PLAYING,
      stream = \<lparr>active = True, stopped = False\<rparr>,
      audio = \<lparr>data = [[0], [1], [2], [3], [4], [5], [6], [7]]\<rparr>\<rparr>)"
proof -
  let ?big = "\<lparr>curframe = 1500, loop = False, direction = - 1, mode = MODE_PLAYING,
      stream = \<lparr>active = True, stopped = False\<rparr>,
      audio = \<lparr>data = map (\<lambda>i. [int i]) [0..<2048]\<rparr>\<rparr>"
  let ?small = "\<lparr>curframe = 5, loop = False, direction = - 1, mode = MODE_PLAYING,
      stream = \<lparr>active = True, stopped = False\<rparr>,
      audio = \<lparr>data = [[0], [1], [2], [3], [4], [5], [6], [7]]\<rparr>\<rparr>"
  have frames: "map (\<lambda>i. map (\<lambda>i. [int i]) [0..<2048] ! nat (1500 - int i)) [0..<1024] =
      map (\<lambda>i. [1500 - int i]) [0..<1024]"
    by (rule map_cong) auto
  have a: "next_block_callback ?big (replicate 1024 [0]) =
      (None, map (\<lambda>i. [1500 - int i]) [0..<1024], ?big\<lparr>curframe := 476\<rparr>)"
    using C1_reverse_block [of 1024 ?big "replicate 1024 [0]"]
    by (simp add: DEFAULT_BLOCK_SIZE_def frames)
  have b: "next_block_callback_at 3 ?small [[9], [9], [9]] =
      (None, [[5], [4], [3]], ?small\<lparr>curframe := 2\<rparr>)"
    using C1_reverse_block [of 3 ?small "[[9], [9], [9]]"]
    by (simp add: upt_3)
  show ?thesis
    using a b by simp
qed

text \<open>
  C1 as the spec words it, refuted twice on its own input (eight frames, curframe 5,
  direction -1, a buffer of 3 frames). The source's callback asks for 1024 frames,
  gets the six frames 5 down to 0, which do not fit the buffer, and raises ValueError
  with buffer and curframe as they were. With a block size of 3 the buffer is not the
  frames 2, 3, 4 in forward order.
\<close>

theorem C1_forward_order_counterexample:
  "next_block_callback
     \<lparr>curframe = 5, loop = False, direction = - 1, mode = MODE_PLAYING,
      stream = \<lparr>active = True, stopped = False\<rparr>,
      audio = \<lparr>data = [[0], [1], [2], [3], [4], [5], [6], [7]]\<rparr>\<rparr>
     [[9], [9], [9]] =
   (Some ValueError, [[9], [9], [9]],
     \<lparr>curframe = 5, loop = False, direction = - 1, mode = MODE_PLAYING,
      stream = \<lparr>active = True, stopped = False\<rparr>,
      audio = \<lparr>data = [[0], [1], [2], [3], [4], [5], [6], [7]]\<rparr>\<rparr>) \<and>
   fst (snd (next_block_callback_at 3
     \<lparr>curframe = 5, loop = False, direction = - 1, mode = MODE_PLAYING,
      stream = \<lparr>active = True, stopped = False\<rparr>,
      audio = \<lparr>data = [[0], [1], [2], [3], [4], [5], [6], [7]]\<rparr>\<rparr>
     [[9], [9], [9]])) \<noteq> [[2], [3], [4]]"
  by (simp add: next_block_callback_def DEFAULT_BLOCK_SIZE_def next_block_callback_at_def
      get_next_block_def py_slice_def adjust_index_def slice_stop_def slice_count_def upt_3
      Let_def)

subsection \<open>Under-run\<close>










subsection \<open>The range of curframe\<close>

text \<open>
  A reverse block that ends exactly at the start of the audio: the run from frame
  \<open>bs - 1\<close> down to frame 0 fills the buffer, \<open>raw_end\<close> is \<open>-1\<close>, and the
  callback stores it.
\<close>

lemma full_reverse_block_to_start:
  assumes "0 < bs" and "bs \<le> int (length (data (audio s)))" and "direction s = - 1"
    and "curframe s = bs - 1" and "int (length outdata) = bs"
  shows "fst (next_block_callback_at bs s outdata) = None \<and>
         curframe (snd (snd (next_block_callback_at bs s outdata))) = - 1"
proof -
  let ?d = "data (audio s)"
  have lo: "adjust_index (int (length ?d)) (- 1) (bs - 1) = bs - 1"
    using assms(1,2) by (simp add: adjust_index_def)
  have cnt: "slice_count (bs - 1) (- 1) (- 1) = nat bs"
    using assms(1) by (simp add: slice_count_def)
  obtain block where sl: "py_slice ?d (bs - 1) None (- 1) = Inr block"
    by (simp add: py_slice_def Let_def)
  have len: "length block = nat bs"
    using length_py_slice [OF sl] by (simp add: lo cnt slice_stop_def)
  have blk: "get_next_block ?d (- 1) (bs - 1) bs = Inr (block, - 1)"
    by (simp add: get_next_block_def sl Let_def)
  have eq: "length block = length outdata"
    using len assms(5) by simp
  show ?thesis
    using assms(3,4) by (simp add: next_block_callback_at_def blk eq)
qed

text \<open>
  C3, the code at a failing input: 1024 frames of audio; the direction is set to -1
  through the setter and the position to the end through \<open>jump_to_end\<close> (frame
  1023); the next callback, on a buffer of 1024 frames, returns normally and leaves
  curframe at -1.
\<close>

theorem C3_curframe_negative:
  "fst (next_block_callback
     (snd (jump_to_end (snd (set_direction
        \<lparr>curframe = 0, loop = False, direction = 1, mode = MODE_PLAYING,
         stream = \<lparr>active = True, stopped = False\<rparr>,
         audio = \<lparr>data = replicate 1024 [7]\<rparr>\<rparr> (- 1)))))
     (replicate 1024 [0])) = None \<and>
   curframe (snd (snd (next_block_callback
     (snd (jump_to_end (snd (set_direction
        \<lparr>curframe = 0, loop = False, direction = 1, mode = MODE_PLAYING,
         stream = \<lparr>active = True, stopped = False\<rparr>,
         audio = \<lparr>data = replicate 1024 [7]\<rparr>\<rparr> (- 1)))))
     (replicate 1024 [0])))) = - 1"
proof -
  let ?s0 = "\<lparr>curframe = 0, loop = False, direction = 1, mode = MODE_PLAYING,
         stream = \<lparr>active = True, stopped = False\<rparr>,
         audio = \<lparr>data = replicate 1024 [7]\<rparr>\<rparr>"
  have s2: "snd (jump_to_end (snd (set_direction ?s0 (- 1)))) = ?s0\<lparr>direction := - 1, curframe := 1023\<rparr>"
    by (simp add: set_direction_def jump_to_end_def jump_to_frame_def audio_len_def
        audio_framecount_def)
  show ?thesis
    unfolding s2 next_block_callback_def DEFAULT_BLOCK_SIZE_def
    by (rule full_reverse_block_to_start) simp_all
qed

subsection \<open>The finish hook\<close>

text \<open>
  C9: the finish hook, run with a mode other than paused, returns normally with
  curframe 0 and mode stopped, everything else as it was; run with mode paused it
  returns the state untouched (curframe and direction among the rest).
\<close>

theorem C9_finish_hook:
  "(mode s \<noteq> MODE_PAUSED \<longrightarrow>
      stop_playback_callback s = (None, s\<lparr>curframe := 0, mode := MODE_STOPPED\<rparr>)) \<and>
   (mode s = MODE_PAUSED \<longrightarrow> stop_playback_callback s = (None, s))"
  by (simp add: stop_playback_callback_def set_default_playback_state_def jump_to_start_def
      jump_to_frame_def audio_framecount_def)

text \<open>
  C9, witness: a stream at frame 3 in reverse; playing, it is reset to frame 0 and
  stopped; paused, it is left as it is.
\<close>

theorem C9_finish_hook_witness:
  "stop_playback_callback
     \<lparr>curframe = 3, loop = False, direction = - 1, mode = MODE_PLAYING,
      stream = \<lparr>active = False, stopped = True\<rparr>, audio = \<lparr>data = [[1], [2], [3], [4]]\<rparr>\<rparr> =
   (None,
     \<lparr>curframe = 0, loop = False, direction = - 1, mode = MODE_STOPPED,
      stream = \<lparr>active = False, stopped = True\<rparr>, audio = \<lparr>data = [[1], [2], [3], [4]]\<rparr>\<rparr>) \<and>
   stop_playback_callback
     \<lparr>curframe = 3, loop = False, direction = - 1, mode = MODE_PAUSED,
      stream = \<lparr>active = False, stopped = True\<rparr>, audio = \<lparr>data = [[1], [2], [3], [4]]\<rparr>\<rparr> =
   (None,
     \<lparr>curframe = 3, loop = False, direction = - 1, mode = MODE_PAUSED,
      stream = \<lparr>active = False, stopped = True\<rparr>, audio = \<lparr>data = [[1], [2], [3], [4]]\<rparr>\<rparr>)"
  using C9_finish_hook [of "\<lparr>curframe = 3, loop = False, direction = - 1, mode = MODE_PLAYING,
      stream = \<lparr>active = False, stopped = True\<rparr>, audio = \<lparr>data = [[1], [2], [3], [4]]\<rparr>\<rparr>"]
    C9_finish_hook [of "\<lparr>curframe = 3, loop = False, direction = - 1, mode = MODE_PAUSED,
      stream = \<lparr>active = False, stopped = True\<rparr>, audio = \<lparr>data = [[1], [2], [3], [4]]\<rparr>\<rparr>"]
  by simp

subsection \<open>Pausing an inactive stream\<close>

text \<open>
  C10: \<open>pause\<close> on a stream that is not active returns normally and changes nothing:
  mode, curframe, direction and loop are as before (a stopped stream stays stopped).
\<close>

theorem C10_pause_inactive:
  "\<not> active (stream s) \<Longrightarrow> pause s = (None, s)"
  by (simp add: pause_def)

text \<open>C10, witness: a stopped, inactive stream at frame 3 is the same after \<open>pause\<close>.\<close>

theorem C10_pause_inactive_witness:
  "pause
     \<lparr>curframe = 3, loop = True, direction = - 1, mode = MODE_STOPPED,
      stream = \<lparr>active = False, stopped = True\<rparr>, audio = \<lparr>data = [[1], [2], [3], [4]]\<rparr>\<rparr> =
   (None,
     \<lparr>curframe = 3, loop = True, direction = - 1, mode = MODE_STOPPED,
      stream = \<lparr>active = False, stopped = True\<rparr>, audio = \<lparr>data = [[1], [2], [3], [4]]\<rparr>\<rparr>)"
  using C10_pause_inactive [of "\<lparr>curframe = 3, loop = True, direction = - 1, mode = MODE_STOPPED,
      stream = \<lparr>active = False, stopped = True\<rparr>, audio = \<lparr>data = [[1], [2], [3], [4]]\<rparr>\<rparr>"]
  by simp

subsection \<open>The direction setter\<close>

text \<open>
  C8: setting the direction to a value other than +1 and -1 raises ValueError and
  leaves the whole playback state as it was; setting +1 or -1 returns normally, stores
  the value and changes nothing else.
\<close>

theorem C8_direction_setter:
  "(v \<noteq> 1 \<and> v \<noteq> - 1 \<longrightarrow> set_direction s v = (Some ValueError, s)) \<and>
   (v = 1 \<or> v = - 1 \<longrightarrow>
      fst (set_direction s v) = None \<and>
      direction (snd (set_direction s v)) = v \<and>
      snd (set_direction s v) = s\<lparr>direction := v\<rparr>)"
  by (auto simp: set_direction_def)

text \<open>
  C8, witness: from a stream playing forward, 0 is refused and the stream is as
  before; -1 is stored.
\<close>

theorem C8_direction_setter_witness:
  "set_direction
     \<lparr>curframe = 4, loop = True, direction = 1, mode = MODE_PLAYING,
      stream = \<lparr>active = True, stopped = False\<rparr>, audio = \<lparr>data = [[1], [2]]\<rparr>\<rparr> 0 =
   (Some ValueError,
     \<lparr>curframe = 4, loop = True, direction = 1, mode = MODE_PLAYING,
      stream = \<lparr>active = True, stopped = False\<rparr>, audio = \<lparr>data = [[1], [2]]\<rparr>\<rparr>) \<and>
   snd (set_direction
     \<lparr>curframe = 4, loop = True, direction = 1, mode = MODE_PLAYING,
      stream = \<lparr>active = True, stopped = False\<rparr>, audio = \<lparr>data = [[1], [2]]\<rparr>\<rparr> (- 1)) =
     \<lparr>curframe = 4, loop = True, direction = - 1, mode = MODE_PLAYING,
      stream = \<lparr>active = True, stopped = False\<rparr>, audio = \<lparr>data = [[1], [2]]\<rparr>\<rparr>"
  using C8_direction_setter [of 0 "\<lparr>curframe = 4, loop = True, direction = 1,
      mode = MODE_PLAYING, stream = \<lparr>active = True, stopped = False\<rparr>,
      audio = \<lparr>data = [[1], [2]]\<rparr>\<rparr>"]
    C8_direction_setter [of "- 1" "\<lparr>curframe = 4, loop = True, direction = 1,
      mode = MODE_PLAYING, stream = \<lparr>active = True, stopped = False\<rparr>,
      audio = \<lparr>data = [[1], [2]]\<rparr>\<rparr>"]
  by simp

section \<open>Properties of the frame store\<close>

text \<open>
  Neither \<open>seek\<close>, \<open>jump\<close>, \<open>read\<close> nor \<open>read_left\<close> assigns \<open>position\<close>: the
  only assignments in the source are the constructor's and the one in
  \<open>_move_position\<close>, which no method calls.
\<close>

lemma position_never_moves:
  "position (snd (jump st f)) = position st"
  "position (snd (seek st k)) = position st"
  "position (snd (read st n)) = position st"
  "position (snd (read_left st n)) = position st"
  by (auto simp: jump_def seek_def read_def read_left_def move_fileobj_cursor_def
      get_chunk_from_infront_def get_chunk_from_behind_def Let_def
      split: prod.splits option.splits sum.splits)

text \<open>
  When \<open>read_left\<close> would start below frame 0, the chunk size is not reduced to
  \<open>position\<close> but raised to \<open>2 * k - position\<close>, and that many bytes are read
  from byte 0.
\<close>

lemma chunk_from_behind_overshoot:
  assumes "position st - k < 0" and "0 \<le> position st" and "0 \<le> framesize st"
  shows "fst (get_chunk_from_behind st k) =
           Inr (take (nat (2 * k - position st)) (content (source st)))"
proof -
  have nn: "\<not> position st * framesize st < 0"
    using assms(2,3) by (simp add: not_less)
  show ?thesis
    using assms(1,2) nn
    by (simp add: get_chunk_from_behind_def move_fileobj_cursor_def source_seek_def
        source_read_def FILEOBJ_SEEK_ABSOLUTE_def Let_def)
qed

text \<open>
  C4, the code at a failing input: a store of 4 two-byte frames; \<open>jump(9)\<close> and
  \<open>seek(9)\<close>, both outside the frames 0 to 3, return normally, and the jump leaves the
  file cursor at byte 18.
\<close>

theorem C4_jump_out_of_range_accepted:
  "fst (jump (BaseAudioData \<lparr>content = [1, 2, 3, 4, 5, 6, 7, 8], cursor = 0\<rparr> 1 2 8000 4) 9) = None \<and>
   cursor (source (snd (jump (BaseAudioData \<lparr>content = [1, 2, 3, 4, 5, 6, 7, 8], cursor = 0\<rparr> 1 2 8000 4) 9))) = 18 \<and>
   fst (seek (BaseAudioData \<lparr>content = [1, 2, 3, 4, 5, 6, 7, 8], cursor = 0\<rparr> 1 2 8000 4) 9) = None"
  by (simp add: jump_def seek_def move_fileobj_cursor_def source_seek_def BaseAudioData_def
      FILEOBJ_SEEK_ABSOLUTE_def FILEOBJ_SEEK_RELATIVE_def Let_def)

text \<open>
  C5, the code at a failing input: on a new store of 4 frames, \<open>jump(2)\<close> and
  \<open>seek(2)\<close> return normally and \<open>position\<close> is still 0.
\<close>

theorem C5_position_not_moved:
  "fst (jump (BaseAudioData \<lparr>content = [1, 2, 3, 4, 5, 6, 7, 8], cursor = 0\<rparr> 1 2 8000 4) 2) = None \<and>
   position (snd (jump (BaseAudioData \<lparr>content = [1, 2, 3, 4, 5, 6, 7, 8], cursor = 0\<rparr> 1 2 8000 4) 2)) = 0 \<and>
   fst (seek (BaseAudioData \<lparr>content = [1, 2, 3, 4, 5, 6, 7, 8], cursor = 0\<rparr> 1 2 8000 4) 2) = None \<and>
   position (snd (seek (BaseAudioData \<lparr>content = [1, 2, 3, 4, 5, 6, 7, 8], cursor = 0\<rparr> 1 2 8000 4) 2)) = 0"
  by (simp add: jump_def seek_def move_fileobj_cursor_def source_seek_def BaseAudioData_def
      FILEOBJ_SEEK_ABSOLUTE_def FILEOBJ_SEEK_RELATIVE_def Let_def)

text \<open>
  C6, the code at a failing input: \<open>read(2)\<close> on a new store of 4 two-byte frames
  raises TypeError and returns no array.
\<close>

theorem C6_read_raises:
  "fst (read (BaseAudioData \<lparr>content = [1, 2, 3, 4, 5, 6, 7, 8], cursor = 0\<rparr> 1 2 8000 4) 2) = Inl TypeError"
  by (simp add: read_def get_chunk_from_infront_def create_frame_array_def bytes_floordiv_def
      source_read_def Let_def split: prod.splits)

text \<open>
  C7, the code at a failing input: a new store of 4 one-byte frames, position 0;
  the chunk that \<open>read_left(1)\<close> fetches is the two bytes (two frames) at and after
  the position, where at most \<open>position = 0\<close> frames lie behind it.
\<close>

theorem C7_chunk_grows:
  "fst (get_chunk_from_behind (BaseAudioData \<lparr>content = [1, 2, 3, 4], cursor = 0\<rparr> 1 1 8000 4) 1) = Inr [1, 2]"
  by (simp add: get_chunk_from_behind_def move_fileobj_cursor_def source_seek_def source_read_def
      BaseAudioData_def FILEOBJ_SEEK_ABSOLUTE_def Let_def)

end
